theory Spec2Isabelle
  imports Main "HOL-Library.Sublist"
begin

section \<open>Strings, bytes and formatting\<close>

text \<open>
  In the dispatcher a Python \<open>str\<close> is the list of its code points. A \<open>str\<close> can
  hold every code point below 0x110000, the surrogates 0xD800 to 0xDFFF included.
  \<open>bytes\<close> are a list of characters, one character for each byte. In the router a
  path is a \<open>string\<close> whose characters are the code points below 256.
\<close>

type_synonym pystr = "nat list"

type_synonym bytes = "char list"

text \<open>A literal of the source, as a \<open>str\<close>.\<close>

definition lit :: "string \<Rightarrow> pystr" where
  "lit s = map of_char s"

text \<open>
  \<open>str.encode()\<close> is strict UTF-8: one to four bytes for a code point, and
  \<open>UnicodeEncodeError\<close> for a surrogate. A number from 0x110000 on is no code point
  and has no encoding either.
\<close>

datatype unicode_error = UnicodeEncodeError

definition utf8_char :: "nat \<Rightarrow> bytes option" where
  "utf8_char n =
     (if n < 0x80 then Some [char_of n]
      else if n < 0x800 then
        Some [char_of (0xC0 + n div 0x40), char_of (0x80 + n mod 0x40)]
      else if 0xD800 \<le> n \<and> n \<le> 0xDFFF then None
      else if n < 0x10000 then
        Some [char_of (0xE0 + n div 0x1000), char_of (0x80 + n div 0x40 mod 0x40),
              char_of (0x80 + n mod 0x40)]
      else if n < 0x110000 then
        Some [char_of (0xF0 + n div 0x40000), char_of (0x80 + n div 0x1000 mod 0x40),
              char_of (0x80 + n div 0x40 mod 0x40), char_of (0x80 + n mod 0x40)]
      else None)"

fun encode :: "pystr \<Rightarrow> bytes option" where
  "encode [] = Some []"
| "encode (c # cs) =
     (case utf8_char c of
        None \<Rightarrow> None
      | Some bs \<Rightarrow> (case encode cs of None \<Rightarrow> None | Some rest \<Rightarrow> Some (bs @ rest)))"

definition CR :: char where
  "CR = CHR 0x0D"

definition LF :: char where
  "LF = CHR 0x0A"

definition CRLF :: string where
  "CRLF = [CR, LF]"

text \<open>\<open>sep.join(xs)\<close> of Python.\<close>

fun join :: "'a list \<Rightarrow> 'a list list \<Rightarrow> 'a list" where
  "join sep [] = []"
| "join sep [x] = x"
| "join sep (x # y # ys) = x @ sep @ join sep (y # ys)"

text \<open>The decimal form of an integer, as \<open>str.format\<close> prints an \<open>int\<close>.\<close>

definition digit_char :: "nat \<Rightarrow> char" where
  "digit_char d = char_of (48 + d)"

fun str_nat :: "nat \<Rightarrow> string" where
  "str_nat n = (if n < 10 then [digit_char n] else str_nat (n div 10) @ [digit_char (n mod 10)])"

declare str_nat.simps [simp del]

definition str_int :: "int \<Rightarrow> string" where
  "str_int i = (if i < 0 then CHR ''-'' # str_nat (nat (- i)) else str_nat (nat i))"

section \<open>The connection dispatcher: \<open>GrowlerHTTPProtocol\<close>\<close>

subsection \<open>\<open>handle_error\<close>\<close>

text \<open>
  An error delivered to \<open>handle_error\<close> is either an instance of \<open>HTTPError\<close>, which
  carries \<open>code\<close> and \<open>msg\<close>, or any other exception, of which the function reads the
  string form (\<open>"%s" % error\<close>) and the traceback (the lines \<open>traceback.print_tb\<close>
  prints). The class \<open>HTTPError\<close> lives in \<open>growler.http.errors\<close>; only the two
  attributes the function reads are modelled.
\<close>

datatype py_error =
    HTTPError (err_code: int) (err_msg: pystr)
  | OtherError (err_text: pystr) (err_traceback: "pystr list")

text \<open>
  The state the function touches: the chunks written to the transport, oldest first,
  and the chunks written to \<open>sys.stderr\<close>, oldest first.
\<close>

record connection =
  transport_writes :: "bytes list"
  stderr_out :: "pystr list"

text \<open>The page: the template of \<open>err_str\<close>, filled in by \<open>format\<close>.\<close>

definition err_str_format :: "int \<Rightarrow> pystr \<Rightarrow> pystr \<Rightarrow> pystr" where
  "err_str_format code message info =
     lit ''<html>'' @
     lit ''<head></head>'' @
     lit ''<body><h1>HTTP Error : '' @ lit (str_int code) @ lit '' '' @ message @
       lit ''</h1><p>'' @ info @ lit ''</p></body>'' @
     lit ''</html>'' @ lit [LF]"

text \<open>
  The response: the six lines joined by CR LF and filled in by \<open>format\<close> from
  \<open>header_info\<close>, whose \<open>length\<close> is the number of bytes of the encoded page.
\<close>

definition response_format :: "int \<Rightarrow> pystr \<Rightarrow> pystr \<Rightarrow> nat \<Rightarrow> pystr \<Rightarrow> pystr" where
  "response_format code msg date len contents =
     join (lit CRLF)
       [lit ''HTTP/1.1 '' @ lit (str_int code) @ lit '' '' @ msg,
        lit ''Content-Type: text/html; charset=UTF-8'',
        lit ''Content-Length: '' @ lit (str_int (int len)),
        lit ''Date: '' @ date,
        [],
        contents]"

text \<open>
  \<open>HTTPResponse.get_current_time()\<close> reads the clock; its result is the parameter
  \<open>date\<close>. The function has no \<open>try\<close>: \<open>err_str.encode()\<close>, which computes the
  length, and \<open>response.encode()\<close>, which computes the bytes to write, raise
  \<open>UnicodeEncodeError\<close> out of the function, after the trace has been printed and
  before anything is written. The result is the exception raised, if any, and the
  state afterwards.
\<close>

definition handle_error ::
  "pystr \<Rightarrow> py_error \<Rightarrow> connection \<Rightarrow> unicode_error option \<times> connection" where
  "handle_error date error self =
     (let (err_code, err_msg, err_info, self1) =
            (case error of
               HTTPError c m \<Rightarrow> (c, m, [], self)
             | OtherError s tb \<Rightarrow>
                 (500, lit ''Server Error'', s,
                  self\<lparr>stderr_out :=
                         stderr_out self @ [lit ''Unexpected Server Error'' @ lit [LF]] @ tb\<rparr>));
          err_str = err_str_format err_code err_msg err_info
      in case encode err_str of
           None \<Rightarrow> (Some UnicodeEncodeError, self1)
         | Some encoded \<Rightarrow>
             (case encode (response_format err_code err_msg date (length encoded) err_str) of
                None \<Rightarrow> (Some UnicodeEncodeError, self1)
              | Some data \<Rightarrow>
                  (None, self1\<lparr>transport_writes := transport_writes self1 @ [data]\<rparr>)))"

subsection \<open>\<open>body_storage_pair\<close>\<close>

text \<open>
  The generator \<open>send_body\<close> has four control points: not started, suspended at the
  first \<open>yield\<close> (waiting for \<open>data\<close>), suspended at the second \<open>yield\<close> (after
  \<open>future.set_result(data)\<close>), and finished. A Python value is an \<open>'a option\<close>, with
  \<open>None\<close> for Python's \<open>None\<close>, so that \<open>next(g)\<close> is \<open>g.send(None)\<close>.
\<close>

datatype gen_state = NotStarted | AtFirstYield | AtSecondYield | Finished

datatype py_exception = StopIteration | TypeError | InvalidStateError

datatype 'a future_state = Pending | Resolved 'a

record 'a body_pair =
  future :: "'a option future_state"
  sender :: gen_state

text \<open>
  \<open>sender.send(v)\<close>: the exception raised, if any, and the state afterwards.
  Sending a value other than \<open>None\<close> to a generator that has not started raises
  \<open>TypeError\<close>; \<open>set_result\<close> on a future that is already resolved raises
  \<open>InvalidStateError\<close>, which ends the generator; resuming after the second
  \<open>yield\<close> runs off the end of the body, which raises \<open>StopIteration\<close>, as does
  every advance of a finished generator.
\<close>

fun gen_send :: "'a option \<Rightarrow> 'a body_pair \<Rightarrow> py_exception option \<times> 'a body_pair" where
  "gen_send v s =
     (case sender s of
        NotStarted \<Rightarrow>
          (case v of
             None \<Rightarrow> (None, s\<lparr>sender := AtFirstYield\<rparr>)
           | Some _ \<Rightarrow> (Some TypeError, s))
      | AtFirstYield \<Rightarrow>
          (case future s of
             Pending \<Rightarrow> (None, s\<lparr>future := Resolved v, sender := AtSecondYield\<rparr>)
           | Resolved _ \<Rightarrow> (Some InvalidStateError, s\<lparr>sender := Finished\<rparr>))
      | AtSecondYield \<Rightarrow> (Some StopIteration, s\<lparr>sender := Finished\<rparr>)
      | Finished \<Rightarrow> (Some StopIteration, s))"

definition body_storage_pair :: "'a body_pair" where
  "body_storage_pair = snd (gen_send None \<lparr>future = Pending, sender = NotStarted\<rparr>)"

text \<open>Awaiting the consumer: its value once resolved, \<open>None\<close> while it would suspend.\<close>

definition await_future :: "'a body_pair \<Rightarrow> 'a option option" where
  "await_future s = (case future s of Pending \<Rightarrow> None | Resolved v \<Rightarrow> Some v)"

text \<open>Driving the producer with a sequence of values, one \<open>send\<close> each.\<close>

fun drive :: "'a option list \<Rightarrow> 'a body_pair \<Rightarrow> 'a body_pair" where
  "drive [] s = s"
| "drive (v # vs) s = drive vs (snd (gen_send v s))"

section \<open>The router: \<open>growler/router.py\<close>\<close>

subsection \<open>Entries, handlers and registration\<close>

text \<open>
  Modelled from the spec: the enumeration \<open>HTTPMethod\<close> of \<open>growler.http.methods\<close>,
  which is not among the sources; the router names its members \<open>ALL\<close>, \<open>GET\<close>,
  \<open>POST\<close>, \<open>PUT\<close> and \<open>DELETE\<close>.
\<close>

datatype http_method =
  HTTPMethod_ALL | HTTPMethod_GET | HTTPMethod_POST | HTTPMethod_PUT | HTTPMethod_DELETE

text \<open>
  A compiled pattern object holds the text it was compiled from. A path argument is a
  \<open>str\<close> or a compiled pattern.
\<close>

datatype regex = Regex (pattern_source: string)

datatype path_arg = PathStr string | PathRegex regex

text \<open>
  What an entry's \<open>func\<close> can be: a plain callable, an instance of \<open>MiddlewareChain\<close>
  that is not a \<open>Router\<close>, or an instance of \<open>Router\<close> (a subclass of
  \<open>MiddlewareChain\<close>). A chain is its \<open>mw_list\<close>; an entry has the attributes \<open>mask\<close>,
  \<open>path\<close> and \<open>func\<close> that \<open>iter_routes\<close> reads.
\<close>

datatype 'f handler = Leaf 'f | MiddlewareChain "'f entry list" | Router "'f entry list"
and 'f entry = Entry (mw_mask: http_method) (mw_path: path_arg) (mw_func: "'f handler")

fun isinstance_Router :: "'f handler \<Rightarrow> bool" where
  "isinstance_Router (Router _) = True"
| "isinstance_Router _ = False"

fun isinstance_MiddlewareChain :: "'f handler \<Rightarrow> bool" where
  "isinstance_MiddlewareChain (Leaf _) = False"
| "isinstance_MiddlewareChain _ = True"

text \<open>
  Modelled from the spec: \<open>MiddlewareChain.add\<close>, of \<open>growler/middleware_chain.py\<close>,
  which is not among the sources. The spec: "\<open>register(mask, pattern, handler)\<close>
  appends an Entry; never mutates existing entries".
\<close>

definition add ::
  "http_method \<Rightarrow> path_arg \<Rightarrow> 'f handler \<Rightarrow> 'f entry list \<Rightarrow> 'f entry list" where
  "add method_mask path func mw_list = mw_list @ [Entry method_mask path func]"

definition add_router :: "path_arg \<Rightarrow> 'f handler \<Rightarrow> 'f entry list \<Rightarrow> 'f entry list" where
  "add_router path router self = add HTTPMethod_ALL path router self"

text \<open>
  \<open>_add_route\<close>, here \<open>add_route_impl\<close> (a name cannot start with an underscore),
  returns the router itself when it is given a middleware, and otherwise a
  function of \<open>func\<close> that registers \<open>func\<close> on the router, as it is when the function
  is called, and returns \<open>func\<close>. The second component is the router after the call.
\<close>

datatype 'f add_route_result =
    ReturnsSelf
  | ReturnsDecorator "'f handler \<Rightarrow> 'f entry list \<Rightarrow> 'f handler \<times> 'f entry list"

definition add_route_impl ::
  "http_method \<Rightarrow> path_arg \<Rightarrow> 'f handler option \<Rightarrow> 'f entry list \<Rightarrow>
   'f add_route_result \<times> 'f entry list" where
  "add_route_impl method_mask path middleware self =
     (case middleware of
        Some mw \<Rightarrow> (ReturnsSelf, add method_mask path mw self)
      | None \<Rightarrow>
          (ReturnsDecorator (\<lambda>func self'. (func, add method_mask path func self')), self))"

definition all ::
  "path_arg \<Rightarrow> 'f handler option \<Rightarrow> 'f entry list \<Rightarrow> 'f add_route_result \<times> 'f entry list" where
  "all path middleware self = add_route_impl HTTPMethod_ALL path middleware self"

definition get ::
  "path_arg \<Rightarrow> 'f handler option \<Rightarrow> 'f entry list \<Rightarrow> 'f add_route_result \<times> 'f entry list" where
  "get path middleware self = add_route_impl HTTPMethod_GET path middleware self"

definition post ::
  "path_arg \<Rightarrow> 'f handler option \<Rightarrow> 'f entry list \<Rightarrow> 'f add_route_result \<times> 'f entry list" where
  "post path middleware self = add_route_impl HTTPMethod_POST path middleware self"

definition put ::
  "path_arg \<Rightarrow> 'f handler option \<Rightarrow> 'f entry list \<Rightarrow> 'f add_route_result \<times> 'f entry list" where
  "put path middleware self = add_route_impl HTTPMethod_PUT path middleware self"

definition delete ::
  "path_arg \<Rightarrow> 'f handler option \<Rightarrow> 'f entry list \<Rightarrow> 'f add_route_result \<times> 'f entry list" where
  "delete path middleware self = add_route_impl HTTPMethod_DELETE path middleware self"

text \<open>
  Calling what a verb method returned with one argument: the decorator runs; the
  router itself takes a method and a path, so the call with one argument fails.
\<close>

definition call_returned ::
  "'f add_route_result \<Rightarrow> 'f handler \<Rightarrow> 'f entry list \<Rightarrow> ('f handler \<times> 'f entry list) option" where
  "call_returned r func self =
     (case r of ReturnsDecorator d \<Rightarrow> Some (d func self) | ReturnsSelf \<Rightarrow> None)"

definition subrouters :: "'f entry list \<Rightarrow> 'f entry list" where
  "subrouters mw_list = filter (\<lambda>mw. isinstance_Router (mw_func mw)) mw_list"

subsection \<open>The skip decision\<close>

text \<open>
  \<open>should_skip_middleware\<close> reads its arguments \<open>matching\<close> and \<open>rest\<close> only through
  \<open>not\<close> and \<open>bool\<close>: \<open>None\<close> and the empty string are false, a match object and a
  non-empty string are true. A match object is modelled by its named groups.
\<close>

datatype pyval = PyNone | PyStr string | PyMatch "(string \<times> string) list"

fun truthy :: "pyval \<Rightarrow> bool" where
  "truthy PyNone = False"
| "truthy (PyStr s) = (s \<noteq> [])"
| "truthy (PyMatch _) = True"

fun should_skip_middleware :: "'f entry \<Rightarrow> pyval \<Rightarrow> pyval \<Rightarrow> bool" where
  "should_skip_middleware middleware matching rest = (\<not> truthy matching \<or> truthy rest)"

subsection \<open>Characters and splitting\<close>

text \<open>
  The class \<open>\w\<close> of a \<open>str\<close> pattern, on the code points below 256: the ASCII letters
  and digits, the underscore, and the Latin-1 letters and numeric characters.
\<close>

definition word_char :: "char \<Rightarrow> bool" where
  "word_char c =
     (let n = (of_char c :: nat)
      in (48 \<le> n \<and> n \<le> 57) \<or> (65 \<le> n \<and> n \<le> 90) \<or> n = 95 \<or> (97 \<le> n \<and> n \<le> 122) \<or>
         n = 170 \<or> n = 178 \<or> n = 179 \<or> n = 181 \<or> n = 185 \<or> n = 186 \<or>
         (188 \<le> n \<and> n \<le> 190) \<or> (192 \<le> n \<and> n \<le> 214) \<or> (216 \<le> n \<and> n \<le> 246) \<or>
         248 \<le> n)"

text \<open>\<open>s.split(d)\<close> of Python, for a separator of one character.\<close>

fun split_on :: "char \<Rightarrow> string \<Rightarrow> string list" where
  "split_on d [] = [[]]"
| "split_on d (c # cs) =
     (if c = d then [] # split_on d cs
      else (case split_on d cs of [] \<Rightarrow> [[c]] | w # ws \<Rightarrow> (c # w) # ws))"

definition backslash :: char where
  "backslash = CHR 0x5C"

subsection \<open>The patterns Python's \<open>re\<close> is modelled for\<close>

text \<open>
  The fragment of \<open>re\<close> that compiled sinatra paths fall in: a sequence of literal
  characters and of named groups \<open>(?P<name>\w+)\<close>. \<open>re_compile\<close> answers \<open>ReError\<close>
  where \<open>re.compile\<close> raises \<open>re.error\<close> for a group name (no closing \<open>>\<close>, an empty
  name, an ASCII name that is no identifier, a name used twice), and \<open>Unmodelled\<close>
  for every text with other special characters, about which the model says nothing.
\<close>

datatype re_tok = Lit char | NamedWord string

datatype re_compiled = Compiled "re_tok list" | ReError | Unmodelled

definition is_ascii :: "char \<Rightarrow> bool" where
  "is_ascii c = ((of_char c :: nat) < 128)"

definition ident_start :: "char \<Rightarrow> bool" where
  "ident_start c =
     (let n = (of_char c :: nat)
      in (65 \<le> n \<and> n \<le> 90) \<or> n = 95 \<or> (97 \<le> n \<and> n \<le> 122))"

definition ident_char :: "char \<Rightarrow> bool" where
  "ident_char c = (ident_start c \<or> (48 \<le> (of_char c :: nat) \<and> (of_char c :: nat) \<le> 57))"

definition ascii_identifier :: "string \<Rightarrow> bool" where
  "ascii_identifier name =
     (case name of [] \<Rightarrow> False | c # cs \<Rightarrow> ident_start c \<and> list_all ident_char cs)"

definition re_special :: "char \<Rightarrow> bool" where
  "re_special c = (c \<in> set ''.^$*+?{}[]|()'' \<or> c = backslash)"

fun strip_prefix :: "string \<Rightarrow> string \<Rightarrow> string option" where
  "strip_prefix [] s = Some s"
| "strip_prefix (p # ps) [] = None"
| "strip_prefix (p # ps) (c # cs) = (if p = c then strip_prefix ps cs else None)"

function re_parse :: "string \<Rightarrow> re_compiled" where
  "re_parse [] = Compiled []"
| "re_parse (c # cs) =
     (if c = CHR ''('' then
        (case strip_prefix ''?P<'' cs of
           None \<Rightarrow> Unmodelled
         | Some r1 \<Rightarrow>
             (if dropWhile (\<lambda>d. d \<noteq> CHR ''>'') r1 = [] then ReError
              else if takeWhile (\<lambda>d. d \<noteq> CHR ''>'') r1 = [] then ReError
              else if \<not> list_all is_ascii (takeWhile (\<lambda>d. d \<noteq> CHR ''>'') r1) then Unmodelled
              else if \<not> ascii_identifier (takeWhile (\<lambda>d. d \<noteq> CHR ''>'') r1) then ReError
              else
                (case strip_prefix (CHR ''>'' # backslash # ''w+)'')
                        (dropWhile (\<lambda>d. d \<noteq> CHR ''>'') r1) of
                   None \<Rightarrow> Unmodelled
                 | Some r2 \<Rightarrow>
                     (case re_parse r2 of
                        Compiled ts \<Rightarrow>
                          Compiled (NamedWord (takeWhile (\<lambda>d. d \<noteq> CHR ''>'') r1) # ts)
                      | ReError \<Rightarrow> ReError
                      | Unmodelled \<Rightarrow> Unmodelled))))
      else if re_special c then Unmodelled
      else
        (case re_parse cs of
           Compiled ts \<Rightarrow> Compiled (Lit c # ts)
         | ReError \<Rightarrow> ReError
         | Unmodelled \<Rightarrow> Unmodelled))"
  by pat_completeness auto
termination
proof (relation "measure length")
  show "wf (measure length)" by simp
next
  have strip_prefix_length: "length r \<le> length s" if "strip_prefix p s = Some r" for p s r
    using that by (induction p s rule: strip_prefix.induct) (auto split: if_splits)
  fix c :: char and cs r1 r2 :: string
  assume a: "strip_prefix ''?P<'' cs = Some r1"
    and b: "strip_prefix (CHR ''>'' # backslash # ''w+)'')
              (dropWhile (\<lambda>d. d \<noteq> CHR ''>'') r1) = Some r2"
  have "length r2 \<le> length (dropWhile (\<lambda>d. d \<noteq> CHR ''>'') r1)"
    using b by (rule strip_prefix_length)
  also have "\<dots> \<le> length r1" by (rule length_dropWhile_le)
  also have "\<dots> \<le> length cs" using a by (rule strip_prefix_length)
  finally show "(r2, c # cs) \<in> measure length" by simp
next
  fix c :: char and cs :: string
  show "(cs, c # cs) \<in> measure length" by simp
qed

fun group_names :: "re_tok list \<Rightarrow> string list" where
  "group_names [] = []"
| "group_names (Lit _ # ts) = group_names ts"
| "group_names (NamedWord n # ts) = n # group_names ts"

definition re_compile :: "string \<Rightarrow> re_compiled" where
  "re_compile src =
     (case re_parse src of
        Compiled ts \<Rightarrow> if distinct (group_names ts) then Compiled ts else ReError
      | ReError \<Rightarrow> ReError
      | Unmodelled \<Rightarrow> Unmodelled)"

text \<open>
  \<open>pattern.match(s)\<close> for a compiled fragment: the named groups and the text after
  the match, or \<open>None\<close>. The match is anchored at the start of \<open>s\<close>; \<open>\w+\<close> is greedy
  and gives characters back one at a time until the rest of the pattern matches.
\<close>

fun first_some :: "'a option list \<Rightarrow> 'a option" where
  "first_some [] = None"
| "first_some (None # xs) = first_some xs"
| "first_some (Some x # xs) = Some x"

primrec match_toks ::
  "re_tok list \<Rightarrow> string \<Rightarrow> ((string \<times> string) list \<times> string) option" where
  "match_toks [] s = Some ([], s)"
| "match_toks (t # ts) s =
     (case t of
        Lit c \<Rightarrow>
          (case s of [] \<Rightarrow> None | d # ds \<Rightarrow> if c = d then match_toks ts ds else None)
      | NamedWord n \<Rightarrow>
          first_some
            (map (\<lambda>k. map_option (\<lambda>(caps, rest). ((n, take k s) # caps, rest))
                         (match_toks ts (drop k s)))
                 (rev [1 ..< Suc (length (takeWhile word_char s))])))"

text \<open>
  \<open>r.match(path)\<close> for a pattern object \<open>r\<close>, as the pair of the match object and of
  the text after the match, or the pair of \<open>None\<close> and \<open>None\<close> when the pattern does
  not match; no answer for a pattern outside the modelled fragment.
\<close>

definition regex_match :: "regex \<Rightarrow> string \<Rightarrow> (pyval \<times> pyval) option" where
  "regex_match r path =
     (case re_compile (pattern_source r) of
        Compiled ts \<Rightarrow>
          Some (case match_toks ts path of
                  None \<Rightarrow> (PyNone, PyNone)
                | Some (caps, rest) \<Rightarrow> (PyMatch caps, PyStr rest))
      | ReError \<Rightarrow> None
      | Unmodelled \<Rightarrow> None)"

subsection \<open>\<open>sinatra_path_to_regex\<close>\<close>

text \<open>
  \<open>sinatra_param_regex.match(segment)\<close>, with \<open>sinatra_param_regex\<close> the pattern
  \<open>:(\w+)\<close>: \<open>match\<close> anchors the pattern at the start of the segment only, so it
  succeeds when the segment starts with a colon and a word character.
\<close>

definition sinatra_param_regex_match :: "string \<Rightarrow> bool" where
  "sinatra_param_regex_match segment =
     (case segment of c # d # _ \<Rightarrow> c = CHR '':'' \<and> word_char d | _ \<Rightarrow> False)"

text \<open>
  The text that the function hands to \<open>re.compile\<close>: the segments of the path, each
  segment on which \<open>sinatra_param_regex.match\<close> succeeds replaced by
  \<open>"(?P<{}>\w+)".format(segment[1:])\<close>, joined by \<open>/\<close>.
\<close>

definition sinatra_regex_text :: "string \<Rightarrow> string" where
  "sinatra_regex_text path =
     join ''/''
       (map (\<lambda>segment.
               if sinatra_param_regex_match segment
               then ''(?P<'' @ tl segment @ ''>'' @ [backslash] @ ''w+)''
               else segment)
            (split_on CHR ''/'' path))"

text \<open>
  \<open>re.compile(text)\<close>: the pattern object, which holds the text, for a text of the
  modelled fragment; \<open>re.error\<close> where the model knows that \<open>re.compile\<close> raises it;
  and no answer for any other text.
\<close>

datatype 'a outcome = Returns 'a | Raises_re_error | Outside_model

definition py_re_compile :: "string \<Rightarrow> regex outcome" where
  "py_re_compile src =
     (case re_compile src of
        Compiled ts \<Rightarrow> Returns (Regex src)
      | ReError \<Rightarrow> Raises_re_error
      | Unmodelled \<Rightarrow> Outside_model)"

fun sinatra_path_to_regex :: "path_arg \<Rightarrow> regex outcome" where
  "sinatra_path_to_regex (PathRegex r) = Returns r"
| "sinatra_path_to_regex (PathStr path) = py_re_compile (sinatra_regex_text path)"

subsection \<open>Matching a request against the chain\<close>

text \<open>
  Modelled from the spec: the entry's split of a path, of \<open>growler/middleware_chain.py\<close>,
  which is not among the sources. The spec: "matching is anchored at the start of
  \<open>path\<close>; a match yields any named captures plus the unmatched remainder of \<open>path\<close>
  (the residual)". The entry's path is compiled by \<open>sinatra_path_to_regex\<close>; the
  result is \<open>None\<close> where there is no pattern object or the pattern is outside the
  modelled fragment.
\<close>

definition path_split :: "'f entry \<Rightarrow> string \<Rightarrow> (pyval \<times> pyval) option" where
  "path_split mw path =
     (case sinatra_path_to_regex (mw_path mw) of
        Returns r \<Rightarrow> regex_match r path
      | Raises_re_error \<Rightarrow> None
      | Outside_model \<Rightarrow> None)"

text \<open>
  Modelled from the spec: the method test of an entry. The spec: "method matching is
  exact against the bitmask (an ALL mask matches every method)".
\<close>

definition matches_method :: "'f entry \<Rightarrow> http_method \<Rightarrow> bool" where
  "matches_method mw m = (mw_mask mw = HTTPMethod_ALL \<or> mw_mask mw = m)"

fun captures_of :: "pyval \<Rightarrow> (string \<times> string) list" where
  "captures_of (PyMatch caps) = caps"
| "captures_of _ = []"

fun residual_of :: "pyval \<Rightarrow> string" where
  "residual_of (PyStr r) = r"
| "residual_of _ = []"

text \<open>
  Modelled from the spec: \<open>MiddlewareChain.__call__\<close>, of
  \<open>growler/middleware_chain.py\<close>, which is not among the sources, as a \<open>Router\<close>
  inherits it. The spec: \<open>match(method, path)\<close> produces a sequence of
  \<open>(handler, captured_params, residual_path)\<close> tuples, one per entry, in registration
  order, whose mask includes the method and whose pattern matches a prefix of the
  path, and "a per-entry decision, \<open>should_skip(entry, matched, residual)\<close>, determines
  whether to still yield the entry". The decision is the router's own
  \<open>should_skip_middleware\<close>.
\<close>

fun chain_call ::
  "'f entry list \<Rightarrow> http_method \<Rightarrow> string \<Rightarrow>
   ('f handler \<times> (string \<times> string) list \<times> string) list option" where
  "chain_call [] m path = Some []"
| "chain_call (mw # mws) m path =
     (if \<not> matches_method mw m then chain_call mws m path
      else
        (case path_split mw path of
           None \<Rightarrow> None
         | Some (matching, rest) \<Rightarrow>
             (if should_skip_middleware mw matching rest then chain_call mws m path
              else map_option ((#) (mw_func mw, captures_of matching, residual_of rest))
                     (chain_call mws m path))))"

record request =
  req_method :: http_method
  req_path :: string

definition match_routes ::
  "'f entry list \<Rightarrow> request \<Rightarrow>
   ('f handler \<times> (string \<times> string) list \<times> string) list option" where
  "match_routes self req = chain_call self (req_method req) (req_path req)"

section \<open>Results about the dispatcher\<close>

subsection \<open>Encoding\<close>

lemma encode_append:
  "encode (a @ b) =
     (case encode a of
        None \<Rightarrow> None
      | Some x \<Rightarrow> (case encode b of None \<Rightarrow> None | Some y \<Rightarrow> Some (x @ y)))"
  by (induction a) (auto split: option.splits)

lemma encode_surrogate: "encode [0xDC80] = None" "encode [0xDCE9] = None"
  by (simp_all add: utf8_char_def)

lemma encode_append_unencodable: "encode b = None \<Longrightarrow> encode (a @ b) = None"
  by (simp add: encode_append split: option.splits)

lemma encode_page_unencodable:
  "encode info = None \<Longrightarrow> encode (err_str_format code message info) = None"
  by (simp add: err_str_format_def encode_append split: option.splits)

lemma encode_lit_ascii: "list_all is_ascii s \<Longrightarrow> encode (lit s) = Some s"
  by (induction s) (simp_all add: lit_def utf8_char_def is_ascii_def)

lemma lit_append: "lit (a @ b) = lit a @ lit b"
  by (simp add: lit_def)

lemma digit_char_ascii: "d < 10 \<Longrightarrow> is_ascii (digit_char d)"
  by (simp add: is_ascii_def digit_char_def)

lemma str_nat_ascii: "list_all is_ascii (str_nat n)"
proof (induction n rule: str_nat.induct)
  case (1 n)
  show ?case
  proof (cases "n < 10")
    case True
    then show ?thesis by (subst str_nat.simps) (simp add: digit_char_ascii)
  next
    case False
    with "1" show ?thesis by (subst str_nat.simps) (simp add: digit_char_ascii)
  qed
qed

lemma str_int_ascii: "list_all is_ascii (str_int i)"
  by (simp add: str_int_def str_nat_ascii is_ascii_def)

lemma ascii_literals:
  "list_all is_ascii CRLF" "list_all is_ascii [LF]"
  by (simp_all add: is_ascii_def CRLF_def CR_def LF_def)

lemma str_int_500: "str_int 500 = ''500''"
  by code_simp

lemma str_int_403: "str_int 403 = ''403''"
  by code_simp

subsection \<open>The error response\<close>

text \<open>Every call either raises and writes nothing, or raises nothing and writes once.\<close>

lemma handle_error_outcomes:
  "(fst (handle_error date error self) = Some UnicodeEncodeError \<and>
    transport_writes (snd (handle_error date error self)) = transport_writes self) \<or>
   (fst (handle_error date error self) = None \<and>
    (\<exists>data. transport_writes (snd (handle_error date error self)) =
             transport_writes self @ [data]))"
  by (cases error) (auto simp: handle_error_def Let_def split: option.splits)

text \<open>
  For an \<open>HTTPError\<close> whose message is ASCII, and an ASCII date, the function raises
  nothing and writes, once, the status line with the code and the message, the three
  headers, an empty line and the page with an empty detail.
\<close>

lemma handle_error_http_ascii:
  assumes "list_all is_ascii m" and "list_all is_ascii d"
  shows "handle_error (lit d) (HTTPError c (lit m)) self =
     (None,
      self\<lparr>transport_writes := transport_writes self @
         [''HTTP/1.1 '' @ str_int c @ '' '' @ m @ CRLF @
          ''Content-Type: text/html; charset=UTF-8'' @ CRLF @
          ''Content-Length: '' @
            str_int (int (length (''<html><head></head><body><h1>HTTP Error : '' @ str_int c @
              '' '' @ m @ ''</h1><p></p></body></html>'' @ [LF]))) @ CRLF @
          ''Date: '' @ d @ CRLF @
          CRLF @
          ''<html><head></head><body><h1>HTTP Error : '' @ str_int c @ '' '' @ m @
            ''</h1><p></p></body></html>'' @ [LF]]\<rparr>)"
proof -
  let ?page = "''<html><head></head><body><h1>HTTP Error : '' @ str_int c @ '' '' @ m @
            ''</h1><p></p></body></html>'' @ [LF]"
  let ?resp = "''HTTP/1.1 '' @ str_int c @ '' '' @ m @ CRLF @
          ''Content-Type: text/html; charset=UTF-8'' @ CRLF @
          ''Content-Length: '' @ str_int (int (length ?page)) @ CRLF @
          ''Date: '' @ d @ CRLF @ CRLF @ ?page"
  have page: "err_str_format c (lit m) [] = lit ?page"
    by (simp add: err_str_format_def lit_def)
  have page_ascii: "list_all is_ascii ?page"
    using assms by (simp add: str_int_ascii is_ascii_def CRLF_def CR_def LF_def)
  have enc_page: "encode (lit ?page) = Some ?page"
    by (rule encode_lit_ascii) (rule page_ascii)
  have resp: "response_format c (lit m) (lit d) (length ?page) (lit ?page) = lit ?resp"
    by (simp add: response_format_def lit_def)
  have resp_ascii: "list_all is_ascii ?resp"
    using assms page_ascii by (simp add: str_int_ascii is_ascii_def CRLF_def CR_def LF_def)
  have enc_resp: "encode (lit ?resp) = Some ?resp"
    by (rule encode_lit_ascii) (rule resp_ascii)
  show ?thesis
    unfolding handle_error_def
    by (simp only: py_error.case prod.case Let_def page enc_page option.case resp enc_resp)
qed

text \<open>
  The 403 \<open>Forbidden\<close> error of the repository's test: the write starts with
  \<open>HTTP/1.1 403 Forbidden\<close>.
\<close>

lemma handle_error_forbidden:
  assumes "list_all is_ascii d"
  shows "fst (handle_error (lit d) (HTTPError 403 (lit ''Forbidden'')) self) = None \<and>
         prefix ''HTTP/1.1 403 Forbidden''
           (last (transport_writes
              (snd (handle_error (lit d) (HTTPError 403 (lit ''Forbidden'')) self))))"
proof -
  have "list_all is_ascii ''Forbidden''"
    by (simp add: is_ascii_def)
  from handle_error_http_ascii [OF this assms, of 403 self]
  show ?thesis by (simp add: str_int_403)
qed

text \<open>
  For any other error whose string form is ASCII, and an ASCII date, the function
  prints the trace, raises nothing and writes, once, the response for 500
  \<open>Server Error\<close> with the string form of the error as the detail.
\<close>

lemma handle_error_other_ascii:
  assumes "list_all is_ascii t" and "list_all is_ascii d"
  shows "handle_error (lit d) (OtherError (lit t) tb) self =
     (None,
      self\<lparr>stderr_out := stderr_out self @ [lit ''Unexpected Server Error'' @ lit [LF]] @ tb,
           transport_writes := transport_writes self @
         [''HTTP/1.1 500 Server Error'' @ CRLF @
          ''Content-Type: text/html; charset=UTF-8'' @ CRLF @
          ''Content-Length: '' @
            str_int (int (length
              (''<html><head></head><body><h1>HTTP Error : 500 Server Error</h1><p>'' @ t @
               ''</p></body></html>'' @ [LF]))) @ CRLF @
          ''Date: '' @ d @ CRLF @
          CRLF @
          ''<html><head></head><body><h1>HTTP Error : 500 Server Error</h1><p>'' @ t @
            ''</p></body></html>'' @ [LF]]\<rparr>)"
proof -
  let ?page = "''<html><head></head><body><h1>HTTP Error : 500 Server Error</h1><p>'' @ t @
            ''</p></body></html>'' @ [LF]"
  let ?resp = "''HTTP/1.1 500 Server Error'' @ CRLF @
          ''Content-Type: text/html; charset=UTF-8'' @ CRLF @
          ''Content-Length: '' @ str_int (int (length ?page)) @ CRLF @
          ''Date: '' @ d @ CRLF @ CRLF @ ?page"
  have page: "err_str_format 500 (lit ''Server Error'') (lit t) = lit ?page"
    by (simp add: err_str_format_def lit_def str_int_500)
  have page_ascii: "list_all is_ascii ?page"
    using assms by (simp add: is_ascii_def LF_def)
  have enc_page: "encode (lit ?page) = Some ?page"
    by (rule encode_lit_ascii) (rule page_ascii)
  have resp: "response_format 500 (lit ''Server Error'') (lit d) (length ?page) (lit ?page) =
                lit ?resp"
    by (simp add: response_format_def lit_def str_int_500)
  have resp_ascii: "list_all is_ascii ?resp"
    using assms page_ascii by (simp add: str_int_ascii is_ascii_def CRLF_def CR_def LF_def)
  have enc_resp: "encode (lit ?resp) = Some ?resp"
    by (rule encode_lit_ascii) (rule resp_ascii)
  have "handle_error (lit d) (OtherError (lit t) tb) self =
     (None,
      (self\<lparr>stderr_out :=
              stderr_out self @ [lit ''Unexpected Server Error'' @ lit [LF]] @ tb\<rparr>)
        \<lparr>transport_writes :=
           transport_writes
             (self\<lparr>stderr_out :=
                     stderr_out self @ [lit ''Unexpected Server Error'' @ lit [LF]] @ tb\<rparr>) @
           [?resp]\<rparr>)"
    unfolding handle_error_def
    by (simp only: py_error.case prod.case Let_def page enc_page option.case resp enc_resp)
  then show ?thesis by (simp del: append.simps)
qed

text \<open>
  Claim C2: the code at an error that is no \<open>HTTPError\<close> and whose string form holds a
  lone surrogate, as the name of a file that is not valid UTF-8 does: \<open>caf\<close> followed
  by the code point 0xDCE9. The trace goes to the error stream, \<open>err_str.encode()\<close>
  raises \<open>UnicodeEncodeError\<close> out of the function, and no response is written.
\<close>

theorem handle_error_surrogate_no_response:
  "fst (handle_error date (OtherError (lit ''caf'' @ [0xDCE9]) tb) self) =
     Some UnicodeEncodeError \<and>
   stderr_out (snd (handle_error date (OtherError (lit ''caf'' @ [0xDCE9]) tb) self)) =
     stderr_out self @ [lit ''Unexpected Server Error'' @ lit [LF]] @ tb \<and>
   transport_writes (snd (handle_error date (OtherError (lit ''caf'' @ [0xDCE9]) tb) self)) =
     transport_writes self"
proof -
  have "encode (lit ''caf'' @ [0xDCE9]) = None"
    by (rule encode_append_unencodable) (rule encode_surrogate)
  then have "encode (err_str_format 500 (lit ''Server Error'') (lit ''caf'' @ [0xDCE9])) = None"
    by (rule encode_page_unencodable)
  then show ?thesis by (simp add: handle_error_def)
qed

text \<open>
  Claim C5: the code at the error \<open>Exception('\udc80')\<close>, whose string form is the
  lone surrogate 0xDC80. The function raises \<open>UnicodeEncodeError\<close> and the transport
  has been given nothing: no write is performed.
\<close>

theorem handle_error_surrogate_no_write:
  "handle_error date (OtherError [0xDC80] tb) self =
     (Some UnicodeEncodeError,
      self\<lparr>stderr_out := stderr_out self @ [lit ''Unexpected Server Error'' @ lit [LF]] @ tb\<rparr>) \<and>
   length (transport_writes (snd (handle_error date (OtherError [0xDC80] tb) self))) =
     length (transport_writes self)"
proof -
  have "encode (err_str_format 500 (lit ''Server Error'') [0xDC80]) = None"
    by (rule encode_page_unencodable) (rule encode_surrogate)
  then show ?thesis by (simp add: handle_error_def)
qed

subsection \<open>The body producer and its consumer\<close>

lemma drive_after_delivery:
  "future s = Resolved x \<Longrightarrow> sender s = AtSecondYield \<or> sender s = Finished \<Longrightarrow>
   future (drive vs s) = Resolved x \<and> sender (drive vs s) \<noteq> NotStarted \<and>
   sender (drive vs s) \<noteq> AtFirstYield"
proof (induction vs arbitrary: s)
  case Nil
  then show ?case by auto
next
  case (Cons v vs)
  from Cons.prems
  have "future (snd (gen_send v s)) = Resolved x \<and> sender (snd (gen_send v s)) = Finished"
    by auto
  then show ?case using Cons.IH [of "snd (gen_send v s)"] by simp
qed

text \<open>
  Claim C10. The pair that \<open>body_storage_pair\<close> returns holds a producer that is
  already suspended at its first \<open>yield\<close> and a consumer that is still pending; the
  caller's first \<open>send\<close> of a value raises nothing and resolves the consumer to that
  value.
\<close>

theorem body_storage_pair_first_send_resolves:
  "sender (body_storage_pair :: 'a body_pair) = AtFirstYield \<and>
   await_future (body_storage_pair :: 'a body_pair) = None \<and>
   gen_send x body_storage_pair = (None, \<lparr>future = Resolved x, sender = AtSecondYield\<rparr>) \<and>
   await_future (snd (gen_send x body_storage_pair)) = Some x"
  by (simp add: body_storage_pair_def await_future_def)

text \<open>
  Claim C3, as stated, fails: a caller that first advances the returned producer
  (\<open>next\<close>, that is \<open>send(None)\<close>) and then delivers the value \<open>body\<close> resolves the
  consumer to \<open>None\<close> by the first advance, and the delivery raises \<open>StopIteration\<close>;
  the consumer never holds \<open>body\<close>.
\<close>

theorem prime_then_deliver_counterexample:
  "await_future (drive [None] (body_storage_pair :: string body_pair)) = Some None \<and>
   fst (gen_send (Some ''body'') (drive [None] body_storage_pair)) = Some StopIteration \<and>
   await_future (drive [None, Some ''body''] body_storage_pair) \<noteq> Some (Some ''body'')"
  by (simp add: body_storage_pair_def await_future_def)

text \<open>
  Claim C3, amended. The returned producer supports exactly one advance: the first
  \<open>send\<close> of a value \<open>x\<close> raises nothing and resolves the consumer to \<open>x\<close>; after any
  further advances \<open>vs\<close> the consumer still holds \<open>x\<close>, and every further advance
  raises \<open>StopIteration\<close>.
\<close>

theorem producer_delivers_once:
  "fst (gen_send x body_storage_pair) = None \<and>
   await_future (drive (x # vs) body_storage_pair) = Some x \<and>
   fst (gen_send y (drive (x # vs) body_storage_pair)) = Some StopIteration"
proof -
  let ?s1 = "snd (gen_send x (body_storage_pair :: 'a body_pair))"
  have s1: "future ?s1 = Resolved x" "sender ?s1 = AtSecondYield"
    by (simp_all add: body_storage_pair_def)
  have d: "future (drive vs ?s1) = Resolved x \<and> sender (drive vs ?s1) \<noteq> NotStarted
             \<and> sender (drive vs ?s1) \<noteq> AtFirstYield"
    using drive_after_delivery [of ?s1 x vs] s1 by simp
  have a: "fst (gen_send x (body_storage_pair :: 'a body_pair)) = None"
    by (simp add: body_storage_pair_def)
  have b: "await_future (drive (x # vs) body_storage_pair) = Some x"
    using d by (simp add: await_future_def)
  have c: "fst (gen_send y (drive (x # vs) body_storage_pair)) = Some StopIteration"
    using d by (cases "sender (drive vs ?s1)") simp_all
  show ?thesis using a b c by blast
qed

section \<open>Results about the router\<close>

subsection \<open>Registration\<close>

lemma add_route_impl_decorator:
  "snd (add_route_impl m path None self) = self \<and>
   call_returned (fst (add_route_impl m path None self)) func st =
     Some (func, st @ [Entry m path func]) \<and>
   add_route_impl m path (Some h) self = (ReturnsSelf, self @ [Entry m path h])"
  by (simp add: add_route_impl_def call_returned_def add_def)

text \<open>
  Claim C7. For each of \<open>all\<close>, \<open>get\<close>, \<open>post\<close>, \<open>put\<close> and \<open>delete\<close>: called
  without a handler, the method leaves the router as it is and returns a decorator,
  and the decorator applied to \<open>func\<close> appends the entry of the method's mask, the
  path and \<open>func\<close> to the router and returns \<open>func\<close>; called with a handler \<open>h\<close>, the
  method appends the entry of the method's mask, the path and \<open>h\<close>, and returns the
  router.
\<close>

theorem verbs_register_or_decorate:
  "(snd (all path None self) = self \<and>
    call_returned (fst (all path None self)) func st =
      Some (func, st @ [Entry HTTPMethod_ALL path func]) \<and>
    all path (Some h) self = (ReturnsSelf, self @ [Entry HTTPMethod_ALL path h])) \<and>
   (snd (get path None self) = self \<and>
    call_returned (fst (get path None self)) func st =
      Some (func, st @ [Entry HTTPMethod_GET path func]) \<and>
    get path (Some h) self = (ReturnsSelf, self @ [Entry HTTPMethod_GET path h])) \<and>
   (snd (post path None self) = self \<and>
    call_returned (fst (post path None self)) func st =
      Some (func, st @ [Entry HTTPMethod_POST path func]) \<and>
    post path (Some h) self = (ReturnsSelf, self @ [Entry HTTPMethod_POST path h])) \<and>
   (snd (put path None self) = self \<and>
    call_returned (fst (put path None self)) func st =
      Some (func, st @ [Entry HTTPMethod_PUT path func]) \<and>
    put path (Some h) self = (ReturnsSelf, self @ [Entry HTTPMethod_PUT path h])) \<and>
   (snd (delete path None self) = self \<and>
    call_returned (fst (delete path None self)) func st =
      Some (func, st @ [Entry HTTPMethod_DELETE path func]) \<and>
    delete path (Some h) self = (ReturnsSelf, self @ [Entry HTTPMethod_DELETE path h]))"
  unfolding all_def get_def post_def put_def delete_def
  by (intro conjI add_route_impl_decorator [THEN conjunct1]
        add_route_impl_decorator [THEN conjunct2, THEN conjunct1]
        add_route_impl_decorator [THEN conjunct2, THEN conjunct2])

lemma isinstance_Router_iff: "isinstance_Router h \<longleftrightarrow> (\<exists>sub. h = Router sub)"
  by (cases h) simp_all

text \<open>
  Claim C8, as stated, fails: an entry whose handler is an instance of
  \<open>MiddlewareChain\<close> that is not a \<open>Router\<close> is an entry whose handler is itself a
  chain, and \<open>subrouters\<close> does not yield it.
\<close>

theorem subrouters_plain_chain_counterexample:
  "subrouters [Entry HTTPMethod_ALL (PathStr ''/api'') (MiddlewareChain [] :: unit handler)] = [] \<and>
   filter (\<lambda>mw. isinstance_MiddlewareChain (mw_func mw))
     [Entry HTTPMethod_ALL (PathStr ''/api'') (MiddlewareChain [] :: unit handler)] =
     [Entry HTTPMethod_ALL (PathStr ''/api'') (MiddlewareChain [])]"
  by (simp add: subrouters_def)

text \<open>
  Claim C8, amended. \<open>subrouters\<close> yields, in registration order and as often as they
  are registered, exactly the entries whose handler is an instance of \<open>Router\<close>.
\<close>

theorem subrouters_are_router_entries:
  "subrouters self = filter (\<lambda>mw. \<exists>sub. mw_func mw = Router sub) self \<and>
   subseq (subrouters self) self"
  by (simp add: subrouters_def isinstance_Router_iff)

subsection \<open>Matching\<close>

text \<open>
  Claim C9. For every request, \<open>match_routes\<close> gives the sequence of matches that
  calling the chain with the request's method and the request's path gives.
\<close>

theorem match_routes_is_chain_call:
  "match_routes self req = chain_call self (req_method req) (req_path req)"
  by (simp add: match_routes_def)

subsection \<open>Compiled paths\<close>

lemma sinatra_path_to_regex_compiled: "sinatra_path_to_regex (PathRegex r) = Returns r"
  by simp

lemma compile_blog:
  "sinatra_path_to_regex (PathStr ''/blog'') = Returns (Regex ''/blog'') \<and>
   re_compile ''/blog'' = Compiled [Lit CHR ''/'', Lit CHR ''b'', Lit CHR ''l'', Lit CHR ''o'', Lit CHR ''g'']"
  by code_simp

lemma compile_home:
  "sinatra_path_to_regex (PathStr ''/home'') = Returns (Regex ''/home'') \<and>
   re_compile ''/home'' = Compiled [Lit CHR ''/'', Lit CHR ''h'', Lit CHR ''o'', Lit CHR ''m'', Lit CHR ''e'']"
  by code_simp

lemma compile_users_id:
  "sinatra_path_to_regex (PathStr ''/users/:id'') =
     Returns (Regex (''/users/(?P<id>'' @ [backslash] @ ''w+)'')) \<and>
   re_compile (''/users/(?P<id>'' @ [backslash] @ ''w+)'') =
     Compiled [Lit CHR ''/'', Lit CHR ''u'', Lit CHR ''s'', Lit CHR ''e'', Lit CHR ''r'',
               Lit CHR ''s'', Lit CHR ''/'', NamedWord ''id'']"
  by code_simp

lemma split_blog_list:
  "path_split (Entry m (PathStr ''/blog'') h) ''/blog/list'' = Some (PyMatch [], PyStr ''/list'')"
  by (simp add: path_split_def regex_match_def compile_blog del: sinatra_path_to_regex.simps)

lemma split_blog_new_post:
  "path_split (Entry m (PathStr ''/blog'') h) ''/blog/new_post'' =
     Some (PyMatch [], PyStr ''/new_post'')"
  by (simp add: path_split_def regex_match_def compile_blog del: sinatra_path_to_regex.simps)

lemma split_home_extra:
  "path_split (Entry m (PathStr ''/home'') h) ''/home/extra'' = Some (PyMatch [], PyStr ''/extra'')"
  by (simp add: path_split_def regex_match_def compile_home del: sinatra_path_to_regex.simps)

lemma split_home:
  "path_split (Entry m (PathStr ''/home'') h) ''/home'' = Some (PyMatch [], PyStr '''')"
  by (simp add: path_split_def regex_match_def compile_home del: sinatra_path_to_regex.simps)

lemma match_users_42:
  "match_toks [Lit CHR ''/'', Lit CHR ''u'', Lit CHR ''s'', Lit CHR ''e'', Lit CHR ''r'',
               Lit CHR ''s'', Lit CHR ''/'', NamedWord ''id''] ''/users/42'' =
     Some ([(''id'', ''42'')], '''')"
  by code_simp

lemma split_users_42:
  "path_split (Entry m (PathStr ''/users/:id'') h) ''/users/42'' =
     Some (PyMatch [(''id'', ''42'')], PyStr '''')"
  by (simp add: path_split_def regex_match_def compile_users_id match_users_42
        del: sinatra_path_to_regex.simps match_toks.simps append.simps)

text \<open>
  Claim C6: the code at the path \<open>/files/:name.txt\<close>. The segment \<open>:name.txt\<close> starts
  with a colon and a name, so \<open>sinatra_param_regex.match\<close> succeeds on its first five
  characters, and the whole segment is replaced by a group named \<open>name.txt\<close>, a text
  for which \<open>re.compile\<close> raises \<open>re.error\<close>.
\<close>

theorem partial_segment_is_parameterized:
  "sinatra_param_regex_match '':name.txt'' \<and>
   sinatra_regex_text ''/files/:name.txt'' = ''/files/(?P<name.txt>'' @ [backslash] @ ''w+)'' \<and>
   sinatra_path_to_regex (PathStr ''/files/:name.txt'') = Raises_re_error"
  by code_simp

lemma match_users_42_edit:
  "match_toks [Lit CHR ''/'', Lit CHR ''u'', Lit CHR ''s'', Lit CHR ''e'', Lit CHR ''r'',
               Lit CHR ''s'', Lit CHR ''/'', NamedWord ''id''] ''/users/42/edit'' =
     Some ([(''id'', ''42'')], ''/edit'')"
  by code_simp

lemma split_users_42_edit:
  "path_split (Entry m (PathStr ''/users/:id'') h) ''/users/42/edit'' =
     Some (PyMatch [(''id'', ''42'')], PyStr ''/edit'')"
  by (simp add: path_split_def regex_match_def compile_users_id match_users_42_edit
        del: sinatra_path_to_regex.simps match_toks.simps append.simps)

subsection \<open>The skip decision\<close>

text \<open>What the split of a path gives, and the decision on it, for any entry.\<close>

lemma path_split_shape:
  "path_split mw path = Some (matching, rest) \<Longrightarrow>
   (matching = PyNone \<and> rest = PyNone) \<or> (\<exists>caps r. matching = PyMatch caps \<and> rest = PyStr r)"
  by (auto simp: path_split_def regex_match_def
        split: outcome.splits re_compiled.splits option.splits)

lemma skip_after_split:
  "(case path_split mw path of
      None \<Rightarrow> True
    | Some (matching, rest) \<Rightarrow>
        should_skip_middleware mw matching rest =
          (matching = PyNone \<or> residual_of rest \<noteq> []))"
proof (cases "path_split mw path")
  case None
  then show ?thesis by simp
next
  case (Some mr)
  obtain matching rest where mr: "mr = (matching, rest)" by (cases mr)
  from path_split_shape [of mw path matching rest] Some mr
  show ?thesis by auto
qed

text \<open>
  Claim C1: the code at the router of the class's docstring, in which \<open>blog_router\<close>,
  with the routes \<open>/list\<close> and \<open>/new_post\<close>, is mounted at \<open>/blog\<close>, and the path
  \<open>/blog/list\<close>. The pattern \<open>/blog\<close> matches the start of the path and the rest is
  \<open>/list\<close>; on that match and that rest the router's skip decision is to skip the
  entry of the sub-router.
\<close>

theorem subrouter_with_residual_is_skipped:
  "should_skip_middleware
     (Entry HTTPMethod_ALL (PathStr ''/blog'')
        (Router [Entry HTTPMethod_GET (PathStr ''/list'') (Leaf ''list_posts''),
                 Entry HTTPMethod_POST (PathStr ''/new_post'') (Leaf ''new_post'')]))
     (PyMatch []) (PyStr ''/list'')"
  by simp

text \<open>
  With the split of the path and the matching loop as they are modelled, no request
  for a route of the mounted sub-router matches anything in the root router.
\<close>

lemma mounted_subrouter_unreachable:
  "path_split (Entry HTTPMethod_ALL (PathStr ''/blog'') (Router sub)) ''/blog/list'' =
     Some (PyMatch [], PyStr ''/list'') \<and>
   chain_call (add_router (PathStr ''/blog'') (Router sub) []) HTTPMethod_GET ''/blog/list'' =
     Some [] \<and>
   chain_call (add_router (PathStr ''/blog'') (Router sub) []) HTTPMethod_POST ''/blog/new_post'' =
     Some []"
  by (simp add: split_blog_list split_blog_new_post add_router_def add_def matches_method_def)

text \<open>
  Claim C4. For an entry with a leaf handler and any path, the skip decision on what
  the entry's split of the path gives is to skip exactly when the pattern did not
  match or the residual is not empty. A leaf handler registered at \<open>/home\<close> is skipped
  for the path \<open>/home/extra\<close>, whose residual is \<open>/extra\<close>, and is yielded for the path
  \<open>/home\<close>, with an empty residual.
\<close>

theorem leaf_skip_decision:
  "(case path_split (Entry m p (Leaf f)) path of
      None \<Rightarrow> True
    | Some (matching, rest) \<Rightarrow>
        should_skip_middleware (Entry m p (Leaf f)) matching rest =
          (matching = PyNone \<or> residual_of rest \<noteq> [])) \<and>
   should_skip_middleware (Entry m p (Leaf f)) PyNone rest \<and>
   should_skip_middleware (Entry m p (Leaf f)) (PyMatch caps) (PyStr r) = (r \<noteq> []) \<and>
   path_split (Entry m (PathStr ''/home'') (Leaf f)) ''/home/extra'' =
     Some (PyMatch [], PyStr ''/extra'') \<and>
   chain_call [Entry m (PathStr ''/home'') (Leaf f)] m ''/home/extra'' = Some [] \<and>
   path_split (Entry m (PathStr ''/home'') (Leaf f)) ''/home'' = Some (PyMatch [], PyStr '''') \<and>
   chain_call [Entry m (PathStr ''/home'') (Leaf f)] m ''/home'' = Some [(Leaf f, [], '''')]"
  using skip_after_split [of "Entry m p (Leaf f)" path]
  by (simp add: split_home_extra split_home matches_method_def)

theorem leaf_skip_decision_witness:
  "should_skip_middleware
     (Entry HTTPMethod_GET (PathStr ''/users/:id'') (Leaf ''show_user''))
     (PyMatch [(''id'', ''42'')]) (PyStr ''/edit'')"
  using leaf_skip_decision
          [of HTTPMethod_GET "PathStr ''/users/:id''" "''show_user''" "''/users/42/edit''"]
  by (simp add: split_users_42_edit)

end
